theory Spec2Isabelle
  imports Complex_Main "HOL-Library.Sublist"
begin

section \<open>JavaScript conventions used by the client\<close>

text \<open>
  \<open>a ?? b\<close>: the right operand is taken only when the left one is \<open>null\<close> or
  \<open>undefined\<close>. An absent or null field is \<open>None\<close>.
\<close>

definition nullish :: "'a option \<Rightarrow> 'a \<Rightarrow> 'a" where
  "nullish a b = (case a of None \<Rightarrow> b | Some v \<Rightarrow> v)"

text \<open>
  Truthiness of a \<open>number | null\<close>: \<open>null\<close> and \<open>0\<close> are falsy. The code tests
  identifiers this way throughout (\<open>!meetingId\<close>, \<open>!selectedExtractionId\<close>,
  \<open>kind === "action_item" && workspaceId\<close>).
\<close>

definition truthy_id :: "nat option \<Rightarrow> bool" where
  "truthy_id n = (case n of None \<Rightarrow> False | Some k \<Rightarrow> k \<noteq> 0)"

text \<open>Truthiness of a \<open>string | null\<close>: \<open>null\<close> and the empty string are falsy.\<close>

definition truthy_str :: "string option \<Rightarrow> bool" where
  "truthy_str s = (case s of None \<Rightarrow> False | Some t \<Rightarrow> t \<noteq> [])"

section \<open>Data model (lib/types.ts)\<close>

datatype TaskStatus = Todo | InProgress | Done

record Task =
  task_id :: nat
  task_workspace_id :: nat
  task_user_id :: nat
  task_title :: string
  task_details :: "string option"
  task_due_at :: "string option"
  task_status :: TaskStatus
  task_created_at :: string

record Workspace =
  ws_id :: nat
  ws_name :: string

datatype InviteStatus = InvitePending | InviteAccepted | InviteDeclined

record Invite =
  inv_id :: nat
  inv_workspace_id :: nat
  inv_workspace_name :: string
  inv_email :: string
  inv_status :: InviteStatus
  inv_invited_by_email :: "string option"
  inv_created_at :: string

datatype ExtractionStatus = Processing | Complete | Failed

record Extraction =
  ext_id :: nat
  ext_meeting_id :: nat
  ext_transcript_version_id :: nat
  ext_status :: ExtractionStatus
  ext_model :: string
  ext_created_at :: string
  ext_error :: "string option"

text \<open>
  An item as the server sends it. \<open>normalizeItem\<close> takes \<open>raw: any\<close>, so every field
  it guards with \<open>??\<close> may be absent, and the strings are whatever the server wrote:
  the casts to \<open>ExtractedItem["kind"]\<close> and \<open>ExtractedItem["status"]\<close> check nothing
  at run time.
\<close>

record raw_item =
  raw_id :: nat
  raw_extraction_id :: nat
  raw_kind :: "string option"
  raw_item_type :: "string option"
  raw_title :: string
  raw_details :: "string option"
  raw_contexts :: "string list option"
  raw_speaker :: "string option"
  raw_timestamp_start :: "string option"
  raw_timestamp_end :: "string option"
  raw_confidence :: "real option"
  raw_needs_review :: "bool option"
  raw_review_reasons :: "string list option"
  raw_status :: "string option"
  raw_created_at :: string

text \<open>
  An item of the in-memory list. \<open>kind\<close> and \<open>status\<close> are the run-time strings;
  \<open>item_type\<close> is the field that \<open>...raw\<close> carries over when the server sent it.
\<close>

record ExtractedItem =
  item_id :: nat
  extraction_id :: nat
  kind :: string
  item_type :: "string option"
  title :: string
  details :: "string option"
  contexts :: "string list"
  speaker :: "string option"
  timestamp_start :: "string option"
  timestamp_end :: "string option"
  confidence :: "real option"
  needs_review :: bool
  review_reasons :: "string list option"
  status :: string
  created_at :: string

text \<open>The three values of the type \<open>ExtractedItemStatus\<close>.\<close>

definition is_review_status :: "string \<Rightarrow> bool" where
  "is_review_status s = (s = ''pending'' \<or> s = ''approved'' \<or> s = ''rejected'')"

section \<open>normalizeItem (ExtractedItemsPanel.tsx, lines 8-22)\<close>

definition normalizeItem :: "raw_item \<Rightarrow> ExtractedItem" where
  "normalizeItem raw =
     \<lparr> item_id = raw_id raw,
       extraction_id = raw_extraction_id raw,
       kind = nullish (raw_kind raw) (nullish (raw_item_type raw) ''note''),
       item_type = raw_item_type raw,
       title = raw_title raw,
       details = nullish (map_option Some (raw_details raw)) None,
       contexts = nullish (raw_contexts raw) [],
       speaker = nullish (map_option Some (raw_speaker raw)) None,
       timestamp_start = nullish (map_option Some (raw_timestamp_start raw)) None,
       timestamp_end = nullish (map_option Some (raw_timestamp_end raw)) None,
       confidence = nullish (map_option Some (raw_confidence raw)) None,
       needs_review = (raw_needs_review raw = Some True),
       review_reasons = nullish (map_option Some (raw_review_reasons raw)) None,
       status = nullish (raw_status raw) ''pending'',
       created_at = raw_created_at raw \<rparr>"

section \<open>filteredItems (ExtractedItemsPanel.tsx, lines 138-141)\<close>

datatype ReviewFilter = FilterPending | FilterApproved | FilterRejected | FilterAll

fun filter_string :: "ReviewFilter \<Rightarrow> string" where
  "filter_string FilterPending = ''pending''"
| "filter_string FilterApproved = ''approved''"
| "filter_string FilterRejected = ''rejected''"
| "filter_string FilterAll = ''all''"

text \<open>
  \<open>it.status ?? "pending"\<close> is written as in the source; the status of an item of the
  list is never null, since \<open>normalizeItem\<close> has filled it in.
\<close>

definition filteredItems :: "ReviewFilter \<Rightarrow> ExtractedItem list \<Rightarrow> ExtractedItem list" where
  "filteredItems reviewFilter its =
     (if reviewFilter = FilterAll then its
      else filter (\<lambda>it. nullish (Some (status it)) ''pending'' = filter_string reviewFilter) its)"

section \<open>Requests to the backend (lib/api.ts)\<close>

text \<open>
  \<open>request\<close> throws \<open>Error(msg)\<close> on a response that is not 2xx. The backend is not
  part of the client: every operation below takes the answer of each request it makes
  as an argument, \<open>Inl\<close> for the thrown error and \<open>Inr\<close> for the parsed body.
\<close>

datatype error = RequestFailed string

record create_task_payload =
  ct_workspace_id :: nat
  ct_title :: string
  ct_details :: "string option"
  ct_due_at :: "string option"

text \<open>
  The body of \<open>PATCH /items/{id}\<close>. The outer option says whether the key is in the
  body; an inner \<open>None\<close> is an explicit \<open>null\<close>.
\<close>

record item_patch =
  p_status :: "string option"
  p_title :: "string option"
  p_details :: "string option option"
  p_speaker :: "string option option"
  p_timestamp_start :: "string option option"
  p_timestamp_end :: "string option option"
  p_needs_review :: "bool option"
  p_review_reasons :: "string list option option"
  p_edit_reason :: "string option option"

definition empty_patch :: item_patch where
  "empty_patch =
     \<lparr> p_status = None, p_title = None, p_details = None, p_speaker = None,
       p_timestamp_start = None, p_timestamp_end = None, p_needs_review = None,
       p_review_reasons = None, p_edit_reason = None \<rparr>"

text \<open>\<open>PatchTask\<close>: both callers send a body with the one key \<open>status\<close>.\<close>

datatype request =
    CreateTask create_task_payload
  | ListTasks nat
  | PatchTask nat TaskStatus
  | PatchExtractedItem nat item_patch
  | ListExtractions nat
  | ListExtractionItems nat
  | CreateWorkspace string
  | CreateInvite nat string
  | ListWorkspaces
  | ListPendingInvites

section \<open>The state of a session\<close>

record last_done =
  taskId :: nat
  prevStatus :: TaskStatus

text \<open>
  An interval timer of the window: its handle, its period in milliseconds and its
  callback. The callback of the polling interval is a closure of the render in which the
  polling effect ran: it calls the \<open>refreshExtractions\<close> of that render, which reads
  that render's \<open>meetingId\<close> and \<open>selectedExtractionId\<close>, and then
  \<open>refreshItems\<close> on that render's \<open>selectedExtractionId\<close>.
\<close>

record poll_closure =
  cl_meetingId :: "nat option"
  cl_selectedExtractionId :: "nat option"

record interval =
  handle :: nat
  period :: nat
  callback :: poll_closure

text \<open>
  The \<open>useState\<close> cells of \<open>App\<close> (\<open>workspaces\<close> to \<open>lastDone\<close>) and of
  \<open>ExtractedItemsPanel\<close> (\<open>extractions\<close> to \<open>busyIds\<close>), the panel's \<open>pollRef\<close>,
  and its props: \<open>meetingId\<close> is \<open>App\<close>'s \<open>selectedMeetingId\<close>, \<open>workspaceId\<close> is
  \<open>activeWorkspaceId\<close>. Outside the components: the interval timers of the window
  (\<open>nextTimer\<close> is the next handle it gives out), the requests sent so far, and the
  warnings written to the console.
\<close>

record session =
  workspaces :: "Workspace list"
  activeWorkspaceId :: "nat option"
  invites :: "Invite list"
  tasks :: "Task list"
  lastDone :: "last_done option"
  meetingId :: "nat option"
  extractions :: "Extraction list"
  selectedExtractionId :: "nat option"
  items :: "ExtractedItem list"
  loadingExtractions :: bool
  loadingItems :: bool
  busyIds :: "nat \<Rightarrow> bool option"
  pollRef :: "nat option"
  timers :: "interval list"
  nextTimer :: nat
  sent :: "request list"
  console :: "(string \<times> error) list"

text \<open>
  What an \<open>async\<close> handler does: how it ends (\<open>Inl\<close> when it throws), the states the
  session is in while the handler waits at each \<open>await\<close> of a request, in order, and
  the state when it has ended.
\<close>

record run =
  outcome :: "error + unit"
  awaiting :: "session list"
  final :: session

definition returns :: "session list \<Rightarrow> session \<Rightarrow> run" where
  "returns ws s = \<lparr> outcome = Inr (), awaiting = ws, final = s \<rparr>"

definition throws :: "error \<Rightarrow> session list \<Rightarrow> session \<Rightarrow> run" where
  "throws e ws s = \<lparr> outcome = Inl e, awaiting = ws, final = s \<rparr>"

text \<open>\<open>await f(); g()\<close>: \<open>g\<close> runs from the state \<open>f\<close> left, unless \<open>f\<close> threw.\<close>

definition then_run :: "run \<Rightarrow> (session \<Rightarrow> run) \<Rightarrow> run" where
  "then_run r g =
     (case outcome r of
        Inl e \<Rightarrow> r
      | Inr u \<Rightarrow> (let r' = g (final r)
                 in r'\<lparr> awaiting := awaiting r @ awaiting r' \<rparr>))"

text \<open>\<open>try { ... } finally { h }\<close>: \<open>h\<close> runs on the last state either way.\<close>

definition finally_run :: "run \<Rightarrow> (session \<Rightarrow> session) \<Rightarrow> run" where
  "finally_run r h = r\<lparr> final := h (final r) \<rparr>"

definition send :: "request \<Rightarrow> session \<Rightarrow> session" where
  "send q s = s\<lparr> sent := sent s @ [q] \<rparr>"

section \<open>App: tasks and the undo buffer (part 004, lines 433-438 and 548-585)\<close>

definition canUndo :: "session \<Rightarrow> bool" where
  "canUndo s = (lastDone s \<noteq> None)"

definition handleChangeWorkspace :: "nat \<Rightarrow> session \<Rightarrow> session" where
  "handleChangeWorkspace wid s = s\<lparr> activeWorkspaceId := Some wid, lastDone := None \<rparr>"

definition refreshTasks :: "nat \<Rightarrow> error + Task list \<Rightarrow> session \<Rightarrow> run" where
  "refreshTasks wid listed s =
     (let s1 = send (ListTasks wid) s
      in case listed of
           Inl e \<Rightarrow> throws e [s1] s1
         | Inr ts \<Rightarrow> returns [s1] (s1\<lparr> tasks := ts \<rparr>))"

definition replace_task :: "nat \<Rightarrow> Task \<Rightarrow> Task list \<Rightarrow> Task list" where
  "replace_task tid updated prev = map (\<lambda>t. if task_id t = tid then updated else t) prev"

definition handleMarkDone :: "nat \<Rightarrow> error + Task \<Rightarrow> session \<Rightarrow> run" where
  "handleMarkDone tid patched s =
     (case find (\<lambda>t. task_id t = tid) (tasks s) of
        None \<Rightarrow> returns [] s
      | Some current \<Rightarrow>
          (let s1 = s\<lparr> lastDone := Some \<lparr> taskId = tid, prevStatus = task_status current \<rparr> \<rparr>;
               s2 = send (PatchTask tid Done) s1
           in case patched of
                Inl e \<Rightarrow> throws e [s2] s2
              | Inr updated \<Rightarrow>
                  returns [s2] (s2\<lparr> tasks := replace_task tid updated (tasks s2) \<rparr>)))"

definition handleUndo :: "error + Task \<Rightarrow> session \<Rightarrow> run" where
  "handleUndo patched s =
     (case lastDone s of
        None \<Rightarrow> returns [] s
      | Some ld \<Rightarrow>
          (let s1 = send (PatchTask (taskId ld) (prevStatus ld)) s
           in case patched of
                Inl e \<Rightarrow> throws e [s1] s1
              | Inr updated \<Rightarrow>
                  returns [s1]
                    (s1\<lparr> tasks := replace_task (taskId ld) updated (tasks s1),
                         lastDone := None \<rparr>)))"

section \<open>App: creating a workspace (part 004, lines 440-447 and 473-489)\<close>

definition refreshInvites :: "error + Invite list \<Rightarrow> session \<Rightarrow> run" where
  "refreshInvites listed s =
     (let s1 = send ListPendingInvites s
      in case listed of
           Inl e \<Rightarrow> returns [s1] (s1\<lparr> invites := [] \<rparr>)
         | Inr pending \<Rightarrow> returns [s1] (s1\<lparr> invites := pending \<rparr>))"

text \<open>
  The loop over the e-mail addresses: one \<open>createInvite\<close> each, a failure written to
  the console (\<open>console.warn("Invite failed for", email, e)\<close>) and the loop going on.
  \<open>invited email\<close> is the backend's answer to the invitation of \<open>email\<close>.
\<close>

fun invite_all :: "nat \<Rightarrow> string list \<Rightarrow> (string \<Rightarrow> error + Invite) \<Rightarrow> session \<Rightarrow> run" where
  "invite_all wid [] invited s = returns [] s"
| "invite_all wid (email # emails) invited s =
     (let s1 = send (CreateInvite wid email) s;
          s2 = (case invited email of
                  Inl e \<Rightarrow> s1\<lparr> console := console s1 @ [(''Invite failed for '' @ email, e)] \<rparr>
                | Inr i \<Rightarrow> s1);
          r = invite_all wid emails invited s2
      in r\<lparr> awaiting := s1 # awaiting r \<rparr>)"

definition handleCreateGroup ::
  "string \<Rightarrow> string list \<Rightarrow> error + Workspace \<Rightarrow> (string \<Rightarrow> error + Invite)
     \<Rightarrow> error + Workspace list \<Rightarrow> error + Invite list \<Rightarrow> session \<Rightarrow> run" where
  "handleCreateGroup groupName emails created invited listed listedInvites s =
     (let s1 = send (CreateWorkspace groupName) s
      in case created of
           Inl e \<Rightarrow> throws e [s1] s1
         | Inr ws \<Rightarrow>
             then_run
               (then_run (returns [s1] s1) (invite_all (ws_id ws) emails invited))
               (\<lambda>s2. let s3 = send ListWorkspaces s2
                     in case listed of
                          Inl e \<Rightarrow> throws e [s3] s3
                        | Inr all \<Rightarrow>
                            then_run
                              (returns [s3]
                                 (s3\<lparr> workspaces := all, activeWorkspaceId := Some (ws_id ws) \<rparr>))
                              (refreshInvites listedInvites)))"

section \<open>ExtractedItemsPanel: the review workflow (lines 143-216)\<close>

definition setBusy :: "nat \<Rightarrow> bool \<Rightarrow> session \<Rightarrow> session" where
  "setBusy i v s = s\<lparr> busyIds := (busyIds s)(i \<mapsto> v) \<rparr>"

text \<open>The flag an \<open>ItemCard\<close> is given: \<open>!!busyIds[it.id]\<close>.\<close>

definition busy :: "session \<Rightarrow> nat \<Rightarrow> bool" where
  "busy s i = (busyIds s i = Some True)"

definition replace_item :: "nat \<Rightarrow> ExtractedItem \<Rightarrow> ExtractedItem list \<Rightarrow> ExtractedItem list" where
  "replace_item i patched prev = map (\<lambda>p. if item_id p = i then patched else p) prev"

text \<open>
  The three handlers end alike: \<open>await api.patchExtractedItem(id, patch)\<close>, then the
  normalised answer replaces the item in the list.
\<close>

definition patch_and_replace :: "nat \<Rightarrow> item_patch \<Rightarrow> error + raw_item \<Rightarrow> session \<Rightarrow> run" where
  "patch_and_replace i patch patched s =
     (let s1 = send (PatchExtractedItem i patch) s
      in case patched of
           Inl e \<Rightarrow> throws e [s1] s1
         | Inr patchedRaw \<Rightarrow>
             returns [s1] (s1\<lparr> items := replace_item i (normalizeItem patchedRaw) (items s1) \<rparr>))"

definition approve_patch :: item_patch where
  "approve_patch =
     empty_patch\<lparr> p_status := Some ''approved'', p_needs_review := Some False,
                  p_review_reasons := Some None, p_edit_reason := Some (Some ''human_approved'') \<rparr>"

text \<open>
  The inner \<open>try\<close> of \<open>approveItem\<close>: \<open>createTask\<close>, then \<open>onTasksChanged\<close>, which
  \<open>App\<close> passes as \<open>refreshTasks(activeWorkspaceId)\<close> whenever a workspace is active.
  The \<open>catch\<close> writes a warning and lets the handler go on.
\<close>

definition create_task_step ::
  "nat \<Rightarrow> ExtractedItem \<Rightarrow> error + Task \<Rightarrow> error + Task list \<Rightarrow> session \<Rightarrow> run" where
  "create_task_step wid item created listed s =
     (let s1 = send (CreateTask \<lparr> ct_workspace_id = wid, ct_title = title item,
                                  ct_details = nullish (map_option Some (details item)) None,
                                  ct_due_at = None \<rparr>) s;
          r = (case created of
                 Inl e \<Rightarrow> throws e [s1] s1
               | Inr t \<Rightarrow> then_run (returns [s1] s1) (refreshTasks wid listed))
      in case outcome r of
           Inl err \<Rightarrow> returns (awaiting r)
                        ((final r)\<lparr> console := console (final r) @ [(''createTask failed'', err)] \<rparr>)
         | Inr u \<Rightarrow> r)"

text \<open>
  \<open>(item as any).kind ?? (item as any).item_type\<close>: the kind of an item of the list is
  never null, so the left operand is always taken.
\<close>

definition approveItem ::
  "ExtractedItem \<Rightarrow> error + Task \<Rightarrow> error + Task list \<Rightarrow> error + raw_item \<Rightarrow> session \<Rightarrow> run" where
  "approveItem item created listed patched s =
     (let s1 = setBusy (item_id item) True s;
          k = nullish (Some (Some (kind item))) (item_type item);
          r = (if k = Some ''action_item'' \<and> truthy_id (activeWorkspaceId s1)
               then create_task_step (the (activeWorkspaceId s1)) item created listed s1
               else returns [] s1)
      in finally_run
           (then_run r (patch_and_replace (item_id item) approve_patch patched))
           (setBusy (item_id item) False))"

text \<open>\<open>prompted\<close> is what \<open>window.prompt\<close> returned: \<open>None\<close> when it was cancelled.\<close>

definition reject_patch :: "string option \<Rightarrow> item_patch" where
  "reject_patch reason =
     empty_patch\<lparr> p_status := Some ''rejected'', p_needs_review := Some True,
                  p_review_reasons :=
                    Some (Some (if truthy_str reason then [the reason] else [''human_rejected''])),
                  p_edit_reason := Some (Some (nullish reason ''human_rejected'')) \<rparr>"

definition rejectItem :: "ExtractedItem \<Rightarrow> string option \<Rightarrow> error + raw_item \<Rightarrow> session \<Rightarrow> run" where
  "rejectItem item prompted patched s =
     (let s1 = setBusy (item_id item) True s;
          reason = nullish (map_option Some prompted) None
      in finally_run
           (patch_and_replace (item_id item) (reject_patch reason) patched s1)
           (setBusy (item_id item) False))"

definition editItem :: "nat \<Rightarrow> item_patch \<Rightarrow> error + raw_item \<Rightarrow> session \<Rightarrow> run" where
  "editItem itemId payload patched s =
     (let s1 = setBusy itemId True s;
          patch = payload\<lparr> p_edit_reason :=
                    Some (Some (nullish (case p_edit_reason payload of None \<Rightarrow> None | Some r \<Rightarrow> r)
                                  ''human_edit'')) \<rparr>
      in finally_run (patch_and_replace itemId patch patched s1) (setBusy itemId False))"

section \<open>ExtractedItemsPanel: runs and their items (lines 46-94, 109-115)\<close>

text \<open>
  \<open>listItems i\<close> is the backend's answer to \<open>GET /extractions/i/items\<close>; the answer
  for one run is taken to be the same for every request made within one operation.
\<close>

definition refreshItems :: "nat option \<Rightarrow> (nat \<Rightarrow> error + raw_item list) \<Rightarrow> session \<Rightarrow> run" where
  "refreshItems extractionId listItems s =
     (if \<not> truthy_id extractionId then returns [] (s\<lparr> items := [] \<rparr>)
      else
        (let s1 = send (ListExtractionItems (the extractionId)) (s\<lparr> loadingItems := True \<rparr>)
         in finally_run
              (case listItems (the extractionId) of
                 Inl e \<Rightarrow> throws e [s1] s1
               | Inr its \<Rightarrow> returns [s1] (s1\<lparr> items := map normalizeItem its \<rparr>))
              (\<lambda>s'. s'\<lparr> loadingItems := False \<rparr>)))"

text \<open>
  \<open>exts[0]\<close> is read only where the source has checked \<open>exts.length\<close>, so \<open>hd\<close> is
  never applied to the empty list.
\<close>

text \<open>
  \<open>refreshExtractions\<close> reads \<open>meetingId\<close> and \<open>selectedExtractionId\<close> from the
  render that created it; \<open>refreshExtractions_from m sel\<close> is the function of a render
  in which they were \<open>m\<close> and \<open>sel\<close>.
\<close>

definition refreshExtractions_from ::
  "nat option \<Rightarrow> nat option \<Rightarrow> error + Extraction list \<Rightarrow> (nat \<Rightarrow> error + raw_item list)
     \<Rightarrow> session \<Rightarrow> run" where
  "refreshExtractions_from m sel listed listItems s =
     (if \<not> truthy_id m
      then returns [] (s\<lparr> extractions := [], selectedExtractionId := None \<rparr>)
      else
        (let s1 = send (ListExtractions (the m)) (s\<lparr> loadingExtractions := True \<rparr>)
         in finally_run
              (case listed of
                 Inl e \<Rightarrow> throws e [s1] s1
               | Inr exts \<Rightarrow>
                   (let s2 = s1\<lparr> extractions := exts \<rparr>
                    in if \<not> truthy_id sel \<and> length exts > 0 then
                         (let i = ext_id (hd exts);
                              s3 = s2\<lparr> selectedExtractionId := Some i \<rparr>
                          in then_run (returns [s1] s3) (refreshItems (Some i) listItems))
                       else if truthy_id sel \<and> \<not> list_ex (\<lambda>e. Some (ext_id e) = sel) exts then
                         (let i = (if length exts \<noteq> 0 then Some (ext_id (hd exts)) else None);
                              s3 = s2\<lparr> selectedExtractionId := i \<rparr>
                          in if truthy_id i
                             then then_run (returns [s1] s3) (refreshItems i listItems)
                             else returns [s1] s3)
                       else returns [s1] s2))
              (\<lambda>s'. s'\<lparr> loadingExtractions := False \<rparr>)))"

text \<open>Called from the current render, as the effect on \<open>meetingId\<close> does.\<close>

definition refreshExtractions ::
  "error + Extraction list \<Rightarrow> (nat \<Rightarrow> error + raw_item list) \<Rightarrow> session \<Rightarrow> run" where
  "refreshExtractions listed listItems s =
     refreshExtractions_from (meetingId s) (selectedExtractionId s) listed listItems s"

text \<open>
  \<open>useEffect(() => { refreshItems(selectedExtractionId) }, [selectedExtractionId])\<close>:
  React runs the body after a render in which the selection differs from the one of the
  render before.
\<close>

definition itemsEffect ::
  "nat option \<Rightarrow> (nat \<Rightarrow> error + raw_item list) \<Rightarrow> session \<Rightarrow> run" where
  "itemsEffect prevSelected listItems s =
     (if selectedExtractionId s = prevSelected then returns [] s
      else refreshItems (selectedExtractionId s) listItems s)"

text \<open>
  The active meeting changes to \<open>m\<close>: \<open>useEffect(() => { refreshExtractions() },
  [meetingId])\<close> runs, and once it has ended the effect on the selection runs if the
  selection has changed. The outcome is the one of \<open>refreshExtractions\<close>.
\<close>

definition selectMeeting ::
  "nat option \<Rightarrow> error + Extraction list \<Rightarrow> (nat \<Rightarrow> error + raw_item list) \<Rightarrow> session \<Rightarrow> run" where
  "selectMeeting m listed listItems s =
     (if m = meetingId s then returns [] s
      else
        (let r = refreshExtractions listed listItems (s\<lparr> meetingId := m \<rparr>);
             r' = itemsEffect (selectedExtractionId s) listItems (final r)
         in r'\<lparr> outcome := outcome r, awaiting := awaiting r @ awaiting r' \<rparr>))"

section \<open>ExtractedItemsPanel: polling (lines 117-136)\<close>

definition activeExtraction :: "session \<Rightarrow> Extraction option" where
  "activeExtraction s =
     (if \<not> truthy_id (selectedExtractionId s) then None
      else nullish
             (map_option Some (find (\<lambda>e. Some (ext_id e) = selectedExtractionId s) (extractions s)))
             None)"

text \<open>
  \<open>if (pollRef.current) { window.clearInterval(pollRef.current); pollRef.current = null }\<close>,
  the first statement of the effect and the whole of its cleanup.
\<close>

definition clearPoll :: "session \<Rightarrow> session" where
  "clearPoll s =
     (if truthy_id (pollRef s)
      then s\<lparr> timers := filter (\<lambda>t. handle t \<noteq> the (pollRef s)) (timers s), pollRef := None \<rparr>
      else s)"

text \<open>\<open>window.setInterval\<close> gives out a handle that it has not given out before.\<close>

definition setInterval :: "poll_closure \<Rightarrow> nat \<Rightarrow> session \<Rightarrow> nat \<times> session" where
  "setInterval cb ms s =
     (nextTimer s,
      s\<lparr> timers := timers s @ [\<lparr> handle = nextTimer s, period = ms, callback = cb \<rparr>],
         nextTimer := Suc (nextTimer s) \<rparr>)"

text \<open>
  The body of the polling effect. The second component says whether the body returned
  its cleanup function, which it does only after it has set the interval.
\<close>

definition pollEffect :: "session \<Rightarrow> session \<times> bool" where
  "pollEffect s =
     (let s1 = clearPoll s
      in case activeExtraction s1 of
           None \<Rightarrow> (s1, False)
         | Some e \<Rightarrow>
             if ext_status e \<noteq> Processing then (s1, False)
             else (let (h, s2) = setInterval
                                   \<lparr> cl_meetingId = meetingId s1,
                                     cl_selectedExtractionId = selectedExtractionId s1 \<rparr>
                                   1500 s1
                   in (s2\<lparr> pollRef := Some h \<rparr>, True)))"



text \<open>
  The interval with handle \<open>h\<close> fires: \<open>await refreshExtractions(); await
  refreshItems(selectedExtractionId)\<close>, both of the render the effect ran in. A cleared
  interval does not fire; one that fires stays pending. When \<open>refreshExtractions\<close> has
  dropped the selection, the effect on the selection empties the item list while the
  request of \<open>refreshItems\<close> is on its way, so that the answer to that request is what
  the list holds in the end.
\<close>

definition pollTick ::
  "nat \<Rightarrow> error + Extraction list \<Rightarrow> (nat \<Rightarrow> error + raw_item list) \<Rightarrow> session \<Rightarrow> run" where
  "pollTick h listed listItems s =
     (case find (\<lambda>t. handle t = h) (timers s) of
        None \<Rightarrow> returns [] s
      | Some t \<Rightarrow>
          then_run
            (refreshExtractions_from (cl_meetingId (callback t))
               (cl_selectedExtractionId (callback t)) listed listItems s)
            (refreshItems (cl_selectedExtractionId (callback t)) listItems))"


section \<open>Properties stated about runs of handlers\<close>

text \<open>The in-memory state the review workflow and the undo buffer work on.\<close>

definition in_memory :: "session \<Rightarrow> Task list \<times> ExtractedItem list \<times> last_done option" where
  "in_memory s = (tasks s, items s, lastDone s)"

text \<open>
  The handler \<open>r\<close>, started in \<open>s\<close>, waits for at least one request; item \<open>i\<close> is busy
  at every wait and not busy at the end; the entry of every other item in \<open>busyIds\<close>
  is, at every wait and at the end, what it was in \<open>s\<close>.
\<close>

definition busy_throughout :: "nat \<Rightarrow> session \<Rightarrow> run \<Rightarrow> bool" where
  "busy_throughout i s r =
     (awaiting r \<noteq> []
      \<and> (\<forall>s' \<in> set (awaiting r). busy s' i)
      \<and> busyIds (final r) i = Some False
      \<and> (\<forall>j. j \<noteq> i \<longrightarrow>
            (\<forall>s' \<in> set (awaiting r). busyIds s' j = busyIds s j)
            \<and> busyIds (final r) j = busyIds s j))"

text \<open>
  The record the backend answers a \<open>PATCH /items/{id}\<close> with carries the status, the
  review flag and the review reasons that the body of the request set.
\<close>

definition answers_patch :: "item_patch \<Rightarrow> raw_item \<Rightarrow> bool" where
  "answers_patch patch raw =
     ((p_status patch \<noteq> None \<longrightarrow> raw_status raw = p_status patch)
      \<and> (p_needs_review patch \<noteq> None \<longrightarrow> raw_needs_review raw = p_needs_review patch)
      \<and> (case p_review_reasons patch of None \<Rightarrow> True | Some v \<Rightarrow> raw_review_reasons raw = v))"

section \<open>Example inputs\<close>

definition raw_example :: raw_item where
  "raw_example =
     \<lparr> raw_id = 7, raw_extraction_id = 3, raw_kind = Some ''action_item'',
       raw_item_type = None, raw_title = ''Send notes'', raw_details = None,
       raw_contexts = None, raw_speaker = None, raw_timestamp_start = None,
       raw_timestamp_end = None, raw_confidence = None, raw_needs_review = None,
       raw_review_reasons = None, raw_status = None, raw_created_at = ''2025-12-01'' \<rparr>"

definition task_example :: Task where
  "task_example =
     \<lparr> task_id = 1, task_workspace_id = 2, task_user_id = 5, task_title = ''Book room'',
       task_details = None, task_due_at = None, task_status = Todo,
       task_created_at = ''2025-12-01'' \<rparr>"

definition extraction_example :: Extraction where
  "extraction_example =
     \<lparr> ext_id = 3, ext_meeting_id = 4, ext_transcript_version_id = 1,
       ext_status = Processing, ext_model = ''hf_structured'',
       ext_created_at = ''2025-12-01'', ext_error = None \<rparr>"

definition workspace_example :: Workspace where
  "workspace_example = \<lparr> ws_id = 2, ws_name = ''Product'' \<rparr>"

definition session_example :: session where
  "session_example =
     \<lparr> workspaces = [workspace_example],
       activeWorkspaceId = Some 2,
       invites = [],
       tasks = [task_example, task_example\<lparr> task_id := 9, task_status := InProgress \<rparr>],
       lastDone = None,
       meetingId = Some 4,
       extractions = [extraction_example],
       selectedExtractionId = Some 3,
       items = [normalizeItem raw_example, normalizeItem (raw_example\<lparr> raw_id := 8 \<rparr>)],
       loadingExtractions = False,
       loadingItems = False,
       busyIds = Map.empty,
       pollRef = None,
       timers = [],
       nextTimer = 1,
       sent = [],
       console = [] \<rparr>"

text \<open>A backend that has the one item \<open>raw_example\<close> for every run.\<close>

definition items_example :: "nat \<Rightarrow> error + raw_item list" where
  "items_example i = Inr [raw_example]"

text \<open>No invitation is sent in the examples.\<close>

definition invited_example :: "string \<Rightarrow> error + Invite" where
  "invited_example email = Inl (RequestFailed ''Request failed: 404'')"

text \<open>\<open>session_example\<close> after its polling effect has run: run 3 is being polled.\<close>

definition polling_example :: session where
  "polling_example = fst (pollEffect session_example)"

text \<open>A tick of that interval for which the backend lists no run of the meeting.\<close>

definition after_tick_example :: session where
  "after_tick_example = final (pollTick 1 (Inr []) items_example polling_example)"

text \<open>
  \<open>session_example\<close> after task 1 of workspace 2 has been marked done, and then after
  a workspace 3 has been created, with nobody invited.
\<close>

definition marked_done_example :: session where
  "marked_done_example =
     final (handleMarkDone 1 (Inr (task_example\<lparr> task_status := Done \<rparr>)) session_example)"

definition group_created_example :: session where
  "group_created_example =
     final (handleCreateGroup ''Design'' [] (Inr \<lparr> ws_id = 3, ws_name = ''Design'' \<rparr>)
              invited_example (Inr [workspace_example, \<lparr> ws_id = 3, ws_name = ''Design'' \<rparr>])
              (Inr []) marked_done_example)"

section \<open>Lemmas shared by the proofs\<close>

lemmas run_defs = returns_def throws_def then_run_def finally_run_def send_def Let_def

lemmas handler_defs = approveItem_def rejectItem_def editItem_def patch_and_replace_def
  create_task_step_def refreshTasks_def setBusy_def

lemma nullish_simps [simp]:
  "nullish None b = b"
  "nullish (Some a) b = a"
  by (simp_all add: nullish_def)

lemma status_normalizeItem:
  "status (normalizeItem raw) = (case raw_status raw of None \<Rightarrow> ''pending'' | Some s \<Rightarrow> s)"
  by (simp add: normalizeItem_def split: option.split)

section \<open>Normalisation of the review status\<close>

text \<open>
  C7, as the code has it: the normalised status is the raw status when the server sent
  one and \<open>pending\<close> when it sent none. It is one of pending, approved and rejected
  exactly when the raw status, if sent, is one of them: nothing in \<open>normalizeItem\<close>
  checks the string. The same holds for a whole list of normalised items.
\<close>

theorem normalizeItem_status:
  "status (normalizeItem raw) = (case raw_status raw of None \<Rightarrow> ''pending'' | Some s \<Rightarrow> s)
   \<and> (is_review_status (status (normalizeItem raw))
        \<longleftrightarrow> (\<forall>s. raw_status raw = Some s \<longrightarrow> is_review_status s))
   \<and> (list_all (\<lambda>it. is_review_status (status it)) (map normalizeItem raws)
        \<longleftrightarrow> list_all (\<lambda>r. \<forall>s. raw_status r = Some s \<longrightarrow> is_review_status s) raws)"
proof -
  have one: "is_review_status (status (normalizeItem r))
      \<longleftrightarrow> (\<forall>s. raw_status r = Some s \<longrightarrow> is_review_status s)" for r
    by (cases "raw_status r") (simp_all add: status_normalizeItem is_review_status_def)
  have many: "list_all (\<lambda>it. is_review_status (status it)) (map normalizeItem raws)
      \<longleftrightarrow> list_all (\<lambda>r. \<forall>s. raw_status r = Some s \<longrightarrow> is_review_status s) raws"
    by (induction raws) (simp_all add: one)
  show ?thesis
    using one [of raw] many by (simp add: status_normalizeItem)
qed

theorem normalizeItem_status_witness:
  "status (normalizeItem raw_example) = ''pending''
   \<and> is_review_status (status (normalizeItem raw_example))
   \<and> status (normalizeItem (raw_example\<lparr>raw_status := Some ''approved''\<rparr>)) = ''approved''
   \<and> list_all (\<lambda>it. is_review_status (status it))
        (map normalizeItem [raw_example, raw_example\<lparr>raw_status := Some ''approved''\<rparr>])"
  using normalizeItem_status [of raw_example "[raw_example, raw_example\<lparr>raw_status := Some ''approved''\<rparr>]"]
    normalizeItem_status [of "raw_example\<lparr>raw_status := Some ''approved''\<rparr>" "[]"]
  by (simp add: raw_example_def is_review_status_def)

text \<open>
  C7 as stated fails: a raw record whose status is a string outside the three values
  keeps that string through normalisation.
\<close>

theorem normalizeItem_status_counterexample:
  "\<not> is_review_status (status (normalizeItem (raw_example\<lparr>raw_status := Some ''archived''\<rparr>)))"
  by (simp add: normalizeItem_def raw_example_def is_review_status_def)

section \<open>Filtering by review status\<close>

text \<open>
  C8: the filter \<open>all\<close> returns the list itself; each of the filters pending, approved
  and rejected returns the items whose status is that value, in their original order
  (a subsequence of the list, holding every item of the list with that status).
\<close>

theorem filteredItems_spec:
  "filteredItems FilterAll its = its
   \<and> filteredItems FilterPending its = filter (\<lambda>it. status it = ''pending'') its
   \<and> filteredItems FilterApproved its = filter (\<lambda>it. status it = ''approved'') its
   \<and> filteredItems FilterRejected its = filter (\<lambda>it. status it = ''rejected'') its
   \<and> subseq (filteredItems f its) its
   \<and> (f \<noteq> FilterAll \<longrightarrow>
        set (filteredItems f its) = {it \<in> set its. status it = filter_string f})"
  by (simp add: filteredItems_def)

theorem filteredItems_spec_witness:
  "filteredItems FilterApproved
      [normalizeItem raw_example, normalizeItem (raw_example\<lparr>raw_status := Some ''approved''\<rparr>)]
     = [normalizeItem (raw_example\<lparr>raw_status := Some ''approved''\<rparr>)]
   \<and> FilterApproved \<noteq> FilterAll"
  using filteredItems_spec [of "[normalizeItem raw_example,
      normalizeItem (raw_example\<lparr>raw_status := Some ''approved''\<rparr>)]" FilterApproved]
  by (simp add: normalizeItem_def raw_example_def)

section \<open>The undo buffer\<close>

lemma find_distinct_key:
  "distinct (map f xs) \<Longrightarrow> x \<in> set xs \<Longrightarrow> find (\<lambda>y. f y = f x) xs = Some x"
  by (induction xs) (auto simp: rev_image_eqI)

lemma replace_task_twice:
  "task_id u1 = tid \<Longrightarrow> replace_task tid u2 (replace_task tid u1 ts) = replace_task tid u2 ts"
  by (simp add: replace_task_def)

lemma replace_task_ids:
  "task_id u = tid \<Longrightarrow> map task_id (replace_task tid u ts) = map task_id ts"
  by (induction ts) (simp_all add: replace_task_def)

lemma replace_task_statuses:
  assumes "distinct (map task_id ts)" "t \<in> set ts" "task_status u = task_status t"
  shows "map task_status (replace_task (task_id t) u ts) = map task_status ts"
proof -
  have inj: "inj_on task_id (set ts)"
    using assms(1) by (simp add: distinct_map)
  have "task_status (if task_id x = task_id t then u else x) = task_status x" if "x \<in> set ts" for x
    using that inj assms(2,3) by (auto dest: inj_onD)
  then show ?thesis
    by (simp add: replace_task_def)
qed

lemma handleUndo_empty: "lastDone s = None \<Longrightarrow> handleUndo r s = returns [] s"
  by (simp add: handleUndo_def)

lemma handleMarkDone_found:
  "find (\<lambda>x. task_id x = tid) (tasks s) = Some t \<Longrightarrow>
     handleMarkDone tid r s =
       (let s2 = s\<lparr> lastDone := Some \<lparr> taskId = tid, prevStatus = task_status t \<rparr>,
                    sent := sent s @ [PatchTask tid Done] \<rparr>
        in case r of
             Inl e \<Rightarrow> throws e [s2] s2
           | Inr updated \<Rightarrow> returns [s2] (s2\<lparr> tasks := replace_task tid updated (tasks s) \<rparr>))"
  by (cases r) (simp_all add: handleMarkDone_def send_def Let_def)

text \<open>
  C3: let the task list hold \<open>t\<close>, with identifiers that are pairwise distinct, and let
  the backend answer each of the two \<open>PATCH /tasks/{id}\<close> requests with the task of
  that identifier in the status the request asked for. Then \<open>markDone(t)\<close> records
  \<open>t\<close> and its status in the buffer whatever the buffer held before, so that its one
  slot is overwritten and \<open>canUndo\<close> holds; the \<open>undo()\<close> that follows asks for the
  recorded status, leaves every task of the list with the identifier and the status it
  had before \<open>markDone\<close>, and empties the buffer, so that \<open>canUndo\<close> is false and a
  further \<open>undo()\<close> returns at once without a request or a change of state. A second
  \<open>markDone\<close> on a task of the list replaces the record of the first, whether or not
  its request succeeds.
\<close>

theorem markDone_then_undo:
  assumes "distinct (map task_id (tasks s))" and "t \<in> set (tasks s)"
    and "task_id u1 = task_id t" and "task_status u1 = Done"
    and "task_id u2 = task_id t" and "task_status u2 = task_status t"
  shows "let s1 = final (handleMarkDone (task_id t) (Inr u1) s);
             s2 = final (handleUndo (Inr u2) s1)
         in lastDone s1 = Some \<lparr> taskId = task_id t, prevStatus = task_status t \<rparr>
          \<and> canUndo s1
          \<and> sent s2 = sent s @ [PatchTask (task_id t) Done, PatchTask (task_id t) (task_status t)]
          \<and> map task_id (tasks s2) = map task_id (tasks s)
          \<and> map task_status (tasks s2) = map task_status (tasks s)
          \<and> lastDone s2 = None \<and> \<not> canUndo s2
          \<and> (\<forall>r. handleUndo r s2 = returns [] s2)
          \<and> (\<forall>t' r. find (\<lambda>x. task_id x = task_id t') (tasks s1) = Some t' \<longrightarrow>
                lastDone (final (handleMarkDone (task_id t') r s1))
                  = Some \<lparr> taskId = task_id t', prevStatus = task_status t' \<rparr>)"
proof -
  have found: "find (\<lambda>x. task_id x = task_id t) (tasks s) = Some t"
    using assms(1,2) by (rule find_distinct_key)
  define s1 where "s1 = final (handleMarkDone (task_id t) (Inr u1) s)"
  define s2 where "s2 = final (handleUndo (Inr u2) s1)"
  have s1: "s1 = s\<lparr> lastDone := Some \<lparr> taskId = task_id t, prevStatus = task_status t \<rparr>,
                    sent := sent s @ [PatchTask (task_id t) Done],
                    tasks := replace_task (task_id t) u1 (tasks s) \<rparr>"
    by (simp add: s1_def handleMarkDone_found [OF found] returns_def Let_def)
  have s2: "s2 = s1\<lparr> sent := sent s1 @ [PatchTask (task_id t) (task_status t)],
                     tasks := replace_task (task_id t) u2 (tasks s1),
                     lastDone := None \<rparr>"
    by (simp add: s2_def handleUndo_def s1 send_def returns_def Let_def)
  have tasks2: "tasks s2 = replace_task (task_id t) u2 (tasks s)"
    using assms(3) by (simp add: s2 s1 replace_task_twice)
  have ids: "map task_id (tasks s2) = map task_id (tasks s)"
    using assms(5) by (simp add: tasks2 replace_task_ids)
  have sts: "map task_status (tasks s2) = map task_status (tasks s)"
    using assms(1,2,6) by (simp add: tasks2 replace_task_statuses)
  have noop: "handleUndo r s2 = returns [] s2" for r
    by (rule handleUndo_empty) (simp add: s2)
  have again: "lastDone (final (handleMarkDone (task_id t') r s1))
      = Some \<lparr> taskId = task_id t', prevStatus = task_status t' \<rparr>"
    if "find (\<lambda>x. task_id x = task_id t') (tasks s1) = Some t'" for t' r
    by (cases r) (simp_all add: handleMarkDone_found [OF that] returns_def throws_def Let_def)
  have "lastDone s1 = Some \<lparr> taskId = task_id t, prevStatus = task_status t \<rparr>
          \<and> canUndo s1
          \<and> sent s2 = sent s @ [PatchTask (task_id t) Done, PatchTask (task_id t) (task_status t)]
          \<and> map task_id (tasks s2) = map task_id (tasks s)
          \<and> map task_status (tasks s2) = map task_status (tasks s)
          \<and> lastDone s2 = None \<and> \<not> canUndo s2
          \<and> (\<forall>r. handleUndo r s2 = returns [] s2)"
    using ids sts noop by (simp add: s1 s2 canUndo_def)
  with again show ?thesis
    unfolding s1_def s2_def Let_def by blast
qed

theorem markDone_then_undo_witness:
  "distinct (map task_id (tasks session_example))
   \<and> task_example \<in> set (tasks session_example)
   \<and> map task_status
        (tasks (final (handleUndo (Inr task_example)
           (final (handleMarkDone 1 (Inr (task_example\<lparr> task_status := Done \<rparr>)) session_example)))))
      = [Todo, InProgress]
   \<and> \<not> canUndo (final (handleUndo (Inr task_example)
           (final (handleMarkDone 1 (Inr (task_example\<lparr> task_status := Done \<rparr>)) session_example))))"
proof -
  have d: "distinct (map task_id (tasks session_example))"
    by (simp add: session_example_def task_example_def)
  have m: "task_example \<in> set (tasks session_example)"
    by (simp add: session_example_def)
  have i: "task_id task_example = 1"
    by (simp add: task_example_def)
  show ?thesis
    using d m markDone_then_undo [OF d m, of "task_example\<lparr> task_status := Done \<rparr>" task_example]
    by (simp add: Let_def i) (simp add: session_example_def task_example_def)
qed

lemma handleChangeWorkspace_clears:
  "lastDone (handleChangeWorkspace wid s) = None
   \<and> \<not> canUndo (handleChangeWorkspace wid s)
   \<and> handleUndo r (handleChangeWorkspace wid s) = returns [] (handleChangeWorkspace wid s)
   \<and> activeWorkspaceId (handleChangeWorkspace wid s) = Some wid
   \<and> \<not> canUndo (handleChangeWorkspace wid (final (handleMarkDone tid patched s)))"
  by (simp add: handleChangeWorkspace_def canUndo_def handleUndo_def)

lemma invite_all_lastDone:
  "lastDone (final (invite_all wid emails invited s)) = lastDone s"
proof (induction emails arbitrary: s)
  case Nil
  then show ?case by (simp add: returns_def)
next
  case (Cons email emails)
  show ?case
    by (cases "invited email") (simp_all add: Cons.IH Let_def send_def)
qed

lemma handleCreateGroup_lastDone:
  "lastDone (final (handleCreateGroup groupName emails created invited listed listedInvites s))
     = lastDone s"
proof (cases created)
  case (Inl e)
  then show ?thesis
    by (simp add: handleCreateGroup_def run_defs)
next
  case (Inr ws)
  have i: "lastDone (final (invite_all (ws_id ws) emails invited z)) = lastDone z" for z
    by (rule invite_all_lastDone)
  show ?thesis
    using Inr i [of "send (CreateWorkspace groupName) s"]
    by (cases listed; cases listedInvites;
        cases "outcome (invite_all (ws_id ws) emails invited (send (CreateWorkspace groupName) s))")
      (simp_all add: handleCreateGroup_def refreshInvites_def returns_def throws_def then_run_def
        Let_def, simp_all add: send_def)
qed

text \<open>
  C10: a change of the active workspace is to leave the undo buffer empty. The workspace
  picker (\<open>handleChangeWorkspace\<close>) does so, for every session. \<open>handleCreateGroup\<close>
  makes the workspace it has created the active one and leaves the buffer as it was:
  in the session in which task 1 of workspace 2 has been marked done, creating workspace
  3 ends with workspace 3 active and \<open>canUndo\<close> still true, and the \<open>undo()\<close> that
  follows sends the patch of task 1 to its prior status.
\<close>

theorem createGroup_keeps_undo:
  "activeWorkspaceId marked_done_example = Some 2
   \<and> lastDone marked_done_example = Some \<lparr> taskId = 1, prevStatus = Todo \<rparr>
   \<and> activeWorkspaceId group_created_example = Some 3
   \<and> lastDone group_created_example = Some \<lparr> taskId = 1, prevStatus = Todo \<rparr>
   \<and> canUndo group_created_example
   \<and> sent (final (handleUndo (Inr task_example) group_created_example))
       = [PatchTask 1 Done, CreateWorkspace ''Design'', ListWorkspaces, ListPendingInvites,
          PatchTask 1 Todo]
   \<and> \<not> canUndo (handleChangeWorkspace 3 marked_done_example)"
proof -
  have m: "marked_done_example =
      session_example\<lparr> lastDone := Some \<lparr> taskId = 1, prevStatus = Todo \<rparr>,
                       sent := [PatchTask 1 Done],
                       tasks := replace_task 1 (task_example\<lparr> task_status := Done \<rparr>)
                                  (tasks session_example) \<rparr>"
    by (simp add: marked_done_example_def handleMarkDone_def session_example_def task_example_def
        run_defs)
  have g: "group_created_example =
      marked_done_example\<lparr> sent := [PatchTask 1 Done, CreateWorkspace ''Design'', ListWorkspaces,
                                      ListPendingInvites],
                           workspaces := [workspace_example, \<lparr> ws_id = 3, ws_name = ''Design'' \<rparr>],
                           activeWorkspaceId := Some 3, invites := [] \<rparr>"
    by (simp add: group_created_example_def handleCreateGroup_def refreshInvites_def run_defs m)
  have a: "activeWorkspaceId marked_done_example = Some 2"
    by (simp add: m session_example_def)
  show ?thesis
    using a by (simp add: g m canUndo_def handleUndo_def handleChangeWorkspace_def run_defs)
qed

section \<open>Approving an action item\<close>

text \<open>
  C1: \<open>approveItem\<close>, for every item and session. If the item is an \<open>action_item\<close>
  and a workspace is active, it first sends one \<open>createTask\<close> for that workspace with
  the item's title and details and, when that succeeded, the refresh of the task list;
  a failure of either is written to the console and nothing else. For every item, of
  whatever kind and however the task creation went, it then sends the patch of the
  item (status approved, \<open>needs_review\<close> false, \<open>review_reasons\<close> null, edit reason
  \<open>human_approved\<close>) and ends as that request ends. When the patch succeeds, the
  normalised answer replaces the item in the list, and it is approved, not flagged and
  without reasons if the answer carries what the patch set; when the patch fails the
  list is what it was.
\<close>

theorem approveItem_patches:
  "let r = approveItem item created listed patched s;
       task = (kind item = ''action_item'' \<and> truthy_id (activeWorkspaceId s))
   in sent (final r) =
        sent s
        @ (if task
           then CreateTask \<lparr> ct_workspace_id = the (activeWorkspaceId s), ct_title = title item,
                              ct_details = details item, ct_due_at = None \<rparr>
                # (case created of
                     Inl e \<Rightarrow> []
                   | Inr t \<Rightarrow> [ListTasks (the (activeWorkspaceId s))])
           else [])
        @ [PatchExtractedItem (item_id item)
             \<lparr> p_status = Some ''approved'', p_title = None, p_details = None,
               p_speaker = None, p_timestamp_start = None, p_timestamp_end = None,
               p_needs_review = Some False, p_review_reasons = Some None,
               p_edit_reason = Some (Some ''human_approved'') \<rparr>]
    \<and> console (final r) =
        console s
        @ (if task
           then (case created of
                   Inl e \<Rightarrow> [(''createTask failed'', e)]
                 | Inr t \<Rightarrow> (case listed of Inl e \<Rightarrow> [(''createTask failed'', e)] | Inr ts \<Rightarrow> []))
           else [])
    \<and> outcome r = (case patched of Inl e \<Rightarrow> Inl e | Inr raw \<Rightarrow> Inr ())
    \<and> items (final r) =
        (case patched of
           Inl e \<Rightarrow> items s
         | Inr raw \<Rightarrow>
             map (\<lambda>p. if item_id p = item_id item then normalizeItem raw else p) (items s))
    \<and> (\<forall>raw. patched = Inr raw \<longrightarrow> answers_patch approve_patch raw \<longrightarrow>
          status (normalizeItem raw) = ''approved''
          \<and> \<not> needs_review (normalizeItem raw)
          \<and> review_reasons (normalizeItem raw) = None)"
proof -
  have d: "nullish (map_option Some (details item)) None = details item"
    by (cases "details item") simp_all
  show ?thesis
  proof (cases "kind item = ''action_item'' \<and> truthy_id (activeWorkspaceId s)")
    case True
    then show ?thesis
      using d
      by (cases created; cases listed; cases patched)
        (simp_all add: handler_defs run_defs approve_patch_def empty_patch_def replace_item_def
          answers_patch_def normalizeItem_def)
  next
    case False
    then show ?thesis
      by (cases patched)
        (auto simp: handler_defs run_defs approve_patch_def empty_patch_def replace_item_def
          answers_patch_def normalizeItem_def)
  qed
qed

theorem approveItem_patches_witness:
  "(let r = approveItem (normalizeItem raw_example) (Inl (RequestFailed ''Request failed: 500''))
              (Inr []) (Inr (raw_example\<lparr> raw_status := Some ''approved'' \<rparr>)) session_example
    in outcome r = Inr ()
     \<and> console (final r) = [(''createTask failed'', RequestFailed ''Request failed: 500'')]
     \<and> length (sent (final r)) = 2
     \<and> map status (items (final r)) = [''approved'', ''pending''])
   \<and> (let r = approveItem (normalizeItem (raw_example\<lparr> raw_kind := Some ''decision'' \<rparr>))
                (Inr task_example) (Inr [])
                (Inr (raw_example\<lparr> raw_kind := Some ''decision'', raw_status := Some ''approved'' \<rparr>))
                session_example
      in outcome r = Inr ()
       \<and> console (final r) = []
       \<and> sent (final r) = [PatchExtractedItem 7 approve_patch]
       \<and> map status (items (final r)) = [''approved'', ''pending''])
   \<and> answers_patch approve_patch (raw_example\<lparr> raw_status := Some ''approved'',
                                                 raw_needs_review := Some False \<rparr>)"
proof -
  have a: "answers_patch approve_patch (raw_example\<lparr> raw_status := Some ''approved'',
                                                 raw_needs_review := Some False \<rparr>)"
    by (simp add: answers_patch_def approve_patch_def empty_patch_def raw_example_def)
  show ?thesis
    using a
      approveItem_patches [of "normalizeItem raw_example"
        "Inl (RequestFailed ''Request failed: 500'')" "Inr []"
        "Inr (raw_example\<lparr> raw_status := Some ''approved'' \<rparr>)" session_example]
      approveItem_patches [of "normalizeItem (raw_example\<lparr> raw_kind := Some ''decision'' \<rparr>)"
        "Inr task_example" "Inr []"
        "Inr (raw_example\<lparr> raw_kind := Some ''decision'', raw_status := Some ''approved'' \<rparr>)"
        session_example]
    by (simp add: Let_def)
      (simp add: session_example_def normalizeItem_def raw_example_def truthy_id_def
        approve_patch_def empty_patch_def)
qed

section \<open>Rejecting an item\<close>

text \<open>
  C5: \<open>rejectItem\<close> sends one patch of the item: status rejected, \<open>needs_review\<close>
  true, \<open>review_reasons\<close> the one-element list of the prompted reason when the prompt
  returned a non-empty string and \<open>["human_rejected"]\<close> otherwise, edit reason the
  prompted string when the prompt returned one (the empty string included) and
  \<open>human_rejected\<close> when it was cancelled. When the patch succeeds, the normalised
  answer replaces the item in the list, and it is rejected, flagged and carries those
  reasons if the answer carries what the patch set.
\<close>

theorem rejectItem_patch:
  "let r = rejectItem item prompted patched s
   in sent (final r) =
        sent s
        @ [PatchExtractedItem (item_id item)
             \<lparr> p_status = Some ''rejected'', p_title = None, p_details = None,
               p_speaker = None, p_timestamp_start = None, p_timestamp_end = None,
               p_needs_review = Some True,
               p_review_reasons =
                 Some (Some (case prompted of
                               None \<Rightarrow> [''human_rejected'']
                             | Some reason \<Rightarrow> if reason = [] then [''human_rejected''] else [reason])),
               p_edit_reason =
                 Some (Some (case prompted of None \<Rightarrow> ''human_rejected'' | Some reason \<Rightarrow> reason)) \<rparr>]
    \<and> outcome r = (case patched of Inl e \<Rightarrow> Inl e | Inr raw \<Rightarrow> Inr ())
    \<and> (\<forall>raw. patched = Inr raw \<longrightarrow>
          items (final r) =
            map (\<lambda>p. if item_id p = item_id item then normalizeItem raw else p) (items s))
    \<and> (\<forall>raw. patched = Inr raw \<longrightarrow> answers_patch (reject_patch prompted) raw \<longrightarrow>
          status (normalizeItem raw) = ''rejected''
          \<and> needs_review (normalizeItem raw)
          \<and> review_reasons (normalizeItem raw) =
              Some (case prompted of
                      None \<Rightarrow> [''human_rejected'']
                    | Some reason \<Rightarrow> if reason = [] then [''human_rejected''] else [reason]))"
  by (cases patched; cases prompted)
    (simp_all add: handler_defs run_defs reject_patch_def empty_patch_def replace_item_def
      answers_patch_def normalizeItem_def truthy_str_def)

theorem rejectItem_patch_witness:
  "answers_patch (reject_patch (Some ''duplicate''))
     (raw_example\<lparr> raw_status := Some ''rejected'', raw_needs_review := Some True,
                   raw_review_reasons := Some [''duplicate''] \<rparr>)
   \<and> (let r = rejectItem (normalizeItem raw_example) (Some ''duplicate'')
                (Inr (raw_example\<lparr> raw_status := Some ''rejected'', raw_needs_review := Some True,
                                    raw_review_reasons := Some [''duplicate''] \<rparr>)) session_example
      in map status (items (final r)) = [''rejected'', ''pending'']
       \<and> map review_reasons (items (final r)) = [Some [''duplicate''], None]
       \<and> map needs_review (items (final r)) = [True, False])"
proof -
  have a: "answers_patch (reject_patch (Some ''duplicate''))
     (raw_example\<lparr> raw_status := Some ''rejected'', raw_needs_review := Some True,
                   raw_review_reasons := Some [''duplicate''] \<rparr>)"
    by (simp add: answers_patch_def reject_patch_def empty_patch_def truthy_str_def)
  show ?thesis
    using a rejectItem_patch [of "normalizeItem raw_example" "Some ''duplicate''"
        "Inr (raw_example\<lparr> raw_status := Some ''rejected'', raw_needs_review := Some True,
                            raw_review_reasons := Some [''duplicate''] \<rparr>)" session_example]
    by (simp add: Let_def) (simp add: session_example_def normalizeItem_def raw_example_def)
qed

section \<open>The busy flag\<close>

text \<open>
  C9: while \<open>approveItem\<close>, \<open>rejectItem\<close> or \<open>editItem\<close> waits for a request, the
  item it works on is busy; when the handler has ended, by returning or by throwing,
  the item is not busy; the entry of every other item in \<open>busyIds\<close> is the same at
  every wait and at the end as it was before.
\<close>

theorem busy_while_patching:
  "busy_throughout (item_id item) s (approveItem item created listed patched s)
   \<and> busy_throughout (item_id item) s (rejectItem item prompted patched s)
   \<and> busy_throughout itemId s (editItem itemId payload patched s)"
proof (intro conjI)
  show "busy_throughout (item_id item) s (approveItem item created listed patched s)"
    by (cases created; cases listed; cases patched)
      (simp_all add: busy_throughout_def busy_def handler_defs run_defs)
  show "busy_throughout (item_id item) s (rejectItem item prompted patched s)"
    by (cases patched) (simp_all add: busy_throughout_def busy_def handler_defs run_defs)
  show "busy_throughout itemId s (editItem itemId payload patched s)"
    by (cases patched) (simp_all add: busy_throughout_def busy_def handler_defs run_defs)
qed

theorem busy_while_patching_witness:
  "(let r = approveItem (normalizeItem raw_example) (Inr task_example) (Inr [task_example])
              (Inl (RequestFailed ''Request failed: 500'')) session_example
    in length (awaiting r) = 3
     \<and> list_all (\<lambda>s'. busy s' 7) (awaiting r)
     \<and> \<not> busy (final r) 7
     \<and> list_all (\<lambda>s'. busyIds s' 8 = busyIds session_example 8) (awaiting r)
     \<and> busyIds (final r) 8 = busyIds session_example 8)
   \<and> (7::nat) \<noteq> 8"
proof -
  have i: "item_id (normalizeItem raw_example) = 7"
    by (simp add: normalizeItem_def raw_example_def)
  have n: "length (awaiting (approveItem (normalizeItem raw_example) (Inr task_example)
      (Inr [task_example]) (Inl (RequestFailed ''Request failed: 500'')) session_example)) = 3"
    by (simp add: handler_defs run_defs normalizeItem_def raw_example_def session_example_def
        truthy_id_def)
  show ?thesis
    using n busy_while_patching [of "normalizeItem raw_example" session_example "Inr task_example"
        "Inr [task_example]" "Inl (RequestFailed ''Request failed: 500'')"]
    by (simp add: i busy_throughout_def busy_def Let_def list_all_iff)
qed

section \<open>Failed requests\<close>

text \<open>
  C4, as the code has it. When the request of \<open>undo\<close>, \<open>reject\<close> or \<open>edit\<close> fails,
  the handler throws that error and the task list, the item list and the undo buffer
  are what they were. When the patch request of \<open>approve\<close> fails, the handler throws
  that error, and the item list and the undo buffer are what they were; the task list
  is what it was unless the task creation and the refresh after it had both
  succeeded, in which case it is the refreshed list. When the request of \<open>markDone\<close>
  fails, the handler throws that error and the task list and the item list are what
  they were, but the undo buffer holds the record of the task and its status, which
  the handler writes before it sends the request.
\<close>

theorem failed_request_state:
  "(let r = handleUndo (Inl e) s
    in (canUndo s \<longrightarrow> outcome r = Inl e) \<and> in_memory (final r) = in_memory s)
   \<and> (let r = rejectItem item prompted (Inl e) s
      in outcome r = Inl e \<and> in_memory (final r) = in_memory s)
   \<and> (let r = editItem itemId payload (Inl e) s
      in outcome r = Inl e \<and> in_memory (final r) = in_memory s)
   \<and> (let r = approveItem item created listed (Inl e) s
      in outcome r = Inl e \<and> items (final r) = items s \<and> lastDone (final r) = lastDone s
       \<and> tasks (final r) =
           (if kind item = ''action_item'' \<and> truthy_id (activeWorkspaceId s)
            then (case created of
                    Inl x \<Rightarrow> tasks s
                  | Inr t \<Rightarrow> (case listed of Inl x \<Rightarrow> tasks s | Inr ts \<Rightarrow> ts))
            else tasks s))
   \<and> (\<forall>t. find (\<lambda>x. task_id x = tid) (tasks s) = Some t \<longrightarrow>
        (let r = handleMarkDone tid (Inl e) s
         in outcome r = Inl e \<and> tasks (final r) = tasks s \<and> items (final r) = items s
          \<and> lastDone (final r) = Some \<lparr> taskId = tid, prevStatus = task_status t \<rparr>))"
proof (intro conjI)
  show "let r = handleUndo (Inl e) s
    in (canUndo s \<longrightarrow> outcome r = Inl e) \<and> in_memory (final r) = in_memory s"
    by (cases "lastDone s") (simp_all add: handleUndo_def canUndo_def in_memory_def run_defs)
  show "let r = rejectItem item prompted (Inl e) s
      in outcome r = Inl e \<and> in_memory (final r) = in_memory s"
    by (simp add: in_memory_def handler_defs run_defs)
  show "let r = editItem itemId payload (Inl e) s
      in outcome r = Inl e \<and> in_memory (final r) = in_memory s"
    by (simp add: in_memory_def handler_defs run_defs)
  show "let r = approveItem item created listed (Inl e) s
      in outcome r = Inl e \<and> items (final r) = items s \<and> lastDone (final r) = lastDone s
       \<and> tasks (final r) =
           (if kind item = ''action_item'' \<and> truthy_id (activeWorkspaceId s)
            then (case created of
                    Inl x \<Rightarrow> tasks s
                  | Inr t \<Rightarrow> (case listed of Inl x \<Rightarrow> tasks s | Inr ts \<Rightarrow> ts))
            else tasks s)"
    by (cases created; cases listed) (simp_all add: handler_defs run_defs)
  show "\<forall>t. find (\<lambda>x. task_id x = tid) (tasks s) = Some t \<longrightarrow>
        (let r = handleMarkDone tid (Inl e) s
         in outcome r = Inl e \<and> tasks (final r) = tasks s \<and> items (final r) = items s
          \<and> lastDone (final r) = Some \<lparr> taskId = tid, prevStatus = task_status t \<rparr>)"
    by (simp add: handleMarkDone_found throws_def Let_def)
qed

theorem failed_request_state_witness:
  "canUndo (session_example\<lparr> lastDone := Some \<lparr> taskId = 9, prevStatus = InProgress \<rparr> \<rparr>)
   \<and> outcome (handleUndo (Inl (RequestFailed ''Request failed: 500''))
        (session_example\<lparr> lastDone := Some \<lparr> taskId = 9, prevStatus = InProgress \<rparr> \<rparr>))
      = Inl (RequestFailed ''Request failed: 500'')
   \<and> find (\<lambda>x. task_id x = 9)
        (tasks (session_example\<lparr> lastDone := Some \<lparr> taskId = 9, prevStatus = InProgress \<rparr> \<rparr>))
      = Some (task_example\<lparr> task_id := 9, task_status := InProgress \<rparr>)
   \<and> lastDone (final (handleMarkDone 9 (Inl (RequestFailed ''Request failed: 500''))
        (session_example\<lparr> lastDone := Some \<lparr> taskId = 9, prevStatus = InProgress \<rparr> \<rparr>)))
      = Some \<lparr> taskId = 9, prevStatus = InProgress \<rparr>"
proof -
  let ?s = "session_example\<lparr> lastDone := Some \<lparr> taskId = 9, prevStatus = InProgress \<rparr> \<rparr>"
  have c: "canUndo ?s"
    by (simp add: canUndo_def)
  have f: "find (\<lambda>x. task_id x = 9) (tasks ?s)
      = Some (task_example\<lparr> task_id := 9, task_status := InProgress \<rparr>)"
    by (simp add: session_example_def task_example_def)
  show ?thesis
    using c f failed_request_state [of "RequestFailed ''Request failed: 500''" ?s _ _ _ _ _ _ 9]
    by (simp add: Let_def)
qed

text \<open>
  C4 as stated fails for \<open>markDone\<close>: with an empty undo buffer and a failing request,
  the handler throws and the buffer is no longer empty.
\<close>

theorem failed_markDone_counterexample:
  "outcome (handleMarkDone 1 (Inl (RequestFailed ''Request failed: 500'')) session_example)
     = Inl (RequestFailed ''Request failed: 500'')
   \<and> lastDone session_example = None
   \<and> lastDone (final (handleMarkDone 1 (Inl (RequestFailed ''Request failed: 500'')) session_example))
     = Some \<lparr> taskId = 1, prevStatus = Todo \<rparr>"
  by (simp add: handleMarkDone_def session_example_def task_example_def run_defs)

section \<open>Refreshing the run list\<close>

lemma refreshItems_loaded:
  "i \<noteq> 0 \<Longrightarrow> listItems i = Inr raws \<Longrightarrow>
     refreshItems (Some i) listItems s =
       returns [s\<lparr> loadingItems := True, sent := sent s @ [ListExtractionItems i] \<rparr>]
         (s\<lparr> sent := sent s @ [ListExtractionItems i], items := map normalizeItem raws,
              loadingItems := False \<rparr>)"
  by (simp add: refreshItems_def truthy_id_def run_defs)

lemma refreshItems_none:
  "\<not> truthy_id x \<Longrightarrow> refreshItems x listItems s = returns [] (s\<lparr> items := [] \<rparr>)"
  by (simp add: refreshItems_def)

lemmas refreshExtractions_defs = refreshExtractions_def refreshExtractions_from_def

text \<open>
  C6, as the code has it: let the run list of the active meeting have been fetched. If no
  run was selected and the list is not empty, its first run becomes the selected one
  and, the request for its items succeeding, the item list is the normalised items of
  that run. If the selected identifier is not in the list, the selection becomes the
  first run of the list, or none when the list is empty. Switching to a meeting whose
  run list is empty leaves no run selected; the item list is emptied when the selection
  changes with the switch, as it does whenever a run was selected, and is otherwise left
  as it was, as it is whenever the selection was null.
\<close>

theorem refreshExtractions_selection:
  "(truthy_id (meetingId s) \<longrightarrow> \<not> truthy_id (selectedExtractionId s) \<longrightarrow>
      ext_id e0 \<noteq> 0 \<longrightarrow> listItems (ext_id e0) = Inr raws \<longrightarrow>
      (let r = refreshExtractions (Inr (e0 # rest)) listItems s
       in outcome r = Inr ()
        \<and> extractions (final r) = e0 # rest
        \<and> selectedExtractionId (final r) = Some (ext_id e0)
        \<and> items (final r) = map normalizeItem raws))
   \<and> (truthy_id (meetingId s) \<longrightarrow> selectedExtractionId s = Some x \<longrightarrow> x \<noteq> 0 \<longrightarrow>
        x \<notin> ext_id ` set exts \<longrightarrow>
        (let r = refreshExtractions (Inr exts) listItems s
         in extractions (final r) = exts
          \<and> selectedExtractionId (final r) = (case exts of [] \<Rightarrow> None | e # es \<Rightarrow> Some (ext_id e))
          \<and> (\<forall>e es rs. exts = e # es \<and> ext_id e \<noteq> 0 \<and> listItems (ext_id e) = Inr rs \<longrightarrow>
                outcome r = Inr () \<and> items (final r) = map normalizeItem rs)))
   \<and> (m \<noteq> meetingId s \<longrightarrow>
        (let r = selectMeeting m (Inr []) listItems s
         in outcome r = Inr ()
          \<and> meetingId (final r) = m
          \<and> extractions (final r) = []
          \<and> \<not> truthy_id (selectedExtractionId (final r))
          \<and> activeExtraction (final r) = None
          \<and> items (final r) =
              (if selectedExtractionId (final r) = selectedExtractionId s then items s else [])
          \<and> (truthy_id (selectedExtractionId s) \<longrightarrow> items (final r) = [])
          \<and> (selectedExtractionId s = None \<longrightarrow> items (final r) = items s)))"
proof (intro conjI impI)
  assume "truthy_id (meetingId s)" "\<not> truthy_id (selectedExtractionId s)"
    "ext_id e0 \<noteq> 0" "listItems (ext_id e0) = Inr raws"
  then show "let r = refreshExtractions (Inr (e0 # rest)) listItems s
       in outcome r = Inr ()
        \<and> extractions (final r) = e0 # rest
        \<and> selectedExtractionId (final r) = Some (ext_id e0)
        \<and> items (final r) = map normalizeItem raws"
    by (simp add: refreshExtractions_defs refreshItems_loaded run_defs)
next
  assume m: "truthy_id (meetingId s)" and sel: "selectedExtractionId s = Some x" "x \<noteq> 0"
    and absent: "x \<notin> ext_id ` set exts"
  have t: "truthy_id (selectedExtractionId s)"
    using sel by (simp add: truthy_id_def)
  have n: "\<not> list_ex (\<lambda>e. Some (ext_id e) = selectedExtractionId s) exts"
    using sel absent by (auto simp: list_ex_iff)
  show "let r = refreshExtractions (Inr exts) listItems s
         in extractions (final r) = exts
          \<and> selectedExtractionId (final r) = (case exts of [] \<Rightarrow> None | e # es \<Rightarrow> Some (ext_id e))
          \<and> (\<forall>e es rs. exts = e # es \<and> ext_id e \<noteq> 0 \<and> listItems (ext_id e) = Inr rs \<longrightarrow>
                outcome r = Inr () \<and> items (final r) = map normalizeItem rs)"
  proof (cases exts)
    case Nil
    then show ?thesis
      using m t by (simp add: refreshExtractions_defs truthy_id_def run_defs)
  next
    case (Cons e es)
    show ?thesis
    proof (cases "ext_id e = 0")
      case True
      then show ?thesis
        using m t n Cons by (simp add: refreshExtractions_defs truthy_id_def run_defs)
    next
      case False
      then have ti: "truthy_id (Some (ext_id e))"
        by (simp add: truthy_id_def)
      show ?thesis
        using m t n Cons ti
        by (cases "listItems (ext_id e)")
          (simp_all add: refreshExtractions_defs refreshItems_def run_defs)
    qed
  qed
next
  assume sw: "m \<noteq> meetingId s"
  let ?s0 = "s\<lparr> meetingId := m \<rparr>"
  let ?r = "refreshExtractions (Inr []) listItems ?s0"
  let ?R = "selectMeeting m (Inr []) listItems s"
  have r: "outcome ?r = Inr () \<and> extractions (final ?r) = [] \<and> meetingId (final ?r) = m
      \<and> items (final ?r) = items s
      \<and> selectedExtractionId (final ?r) =
          (if truthy_id m \<and> \<not> truthy_id (selectedExtractionId s) then selectedExtractionId s
           else None)"
    by (simp add: refreshExtractions_defs truthy_id_def run_defs)
  have main: "outcome ?R = Inr () \<and> meetingId (final ?R) = m \<and> extractions (final ?R) = []
      \<and> selectedExtractionId (final ?R) = selectedExtractionId (final ?r)
      \<and> items (final ?R) =
          (if selectedExtractionId (final ?r) = selectedExtractionId s then items s else [])"
  proof (cases "selectedExtractionId (final ?r) = selectedExtractionId s")
    case True
    then show ?thesis
      using sw r by (simp add: selectMeeting_def itemsEffect_def returns_def Let_def)
  next
    case False
    then have none: "selectedExtractionId (final ?r) = None"
      using r by (auto split: if_splits)
    then show ?thesis
      using sw r False
      by (simp add: selectMeeting_def itemsEffect_def refreshItems_none truthy_id_def
          returns_def Let_def)
  qed
  have falsy: "\<not> truthy_id (selectedExtractionId (final ?r))"
    using r by (simp add: truthy_id_def)
  have changed: "selectedExtractionId (final ?r) \<noteq> selectedExtractionId s"
    if "truthy_id (selectedExtractionId s)"
    using that falsy by auto
  have kept: "selectedExtractionId (final ?r) = selectedExtractionId s"
    if "selectedExtractionId s = None"
    using that r by simp
  show "let r = selectMeeting m (Inr []) listItems s
         in outcome r = Inr ()
          \<and> meetingId (final r) = m
          \<and> extractions (final r) = []
          \<and> \<not> truthy_id (selectedExtractionId (final r))
          \<and> activeExtraction (final r) = None
          \<and> items (final r) =
              (if selectedExtractionId (final r) = selectedExtractionId s then items s else [])
          \<and> (truthy_id (selectedExtractionId s) \<longrightarrow> items (final r) = [])
          \<and> (selectedExtractionId s = None \<longrightarrow> items (final r) = items s)"
    unfolding Let_def
    using main falsy changed kept by (simp add: activeExtraction_def)
qed

theorem refreshExtractions_selection_witness:
  "truthy_id (meetingId session_example)
   \<and> selectedExtractionId session_example = Some 3
   \<and> 3 \<notin> ext_id ` set [extraction_example\<lparr> ext_id := 6 \<rparr>]
   \<and> selectedExtractionId
        (final (refreshExtractions (Inr [extraction_example\<lparr> ext_id := 6 \<rparr>])
           items_example session_example)) = Some 6
   \<and> \<not> truthy_id (selectedExtractionId (session_example\<lparr> selectedExtractionId := None \<rparr>))
   \<and> items (final (refreshExtractions (Inr [extraction_example]) items_example
        (session_example\<lparr> selectedExtractionId := None \<rparr>))) = [normalizeItem raw_example]
   \<and> Some 5 \<noteq> meetingId session_example
   \<and> truthy_id (selectedExtractionId session_example)
   \<and> items (final (selectMeeting (Some 5) (Inr []) items_example session_example)) = []
   \<and> \<not> truthy_id (selectedExtractionId
        (final (selectMeeting (Some 5) (Inr []) items_example session_example)))"
proof -
  have a: "truthy_id (meetingId session_example)"
    "selectedExtractionId session_example = Some 3"
    "3 \<notin> ext_id ` set [extraction_example\<lparr> ext_id := 6 \<rparr>]"
    "truthy_id (selectedExtractionId session_example)" "Some 5 \<noteq> meetingId session_example"
    by (simp_all add: session_example_def truthy_id_def)
  have b: "truthy_id (meetingId (session_example\<lparr> selectedExtractionId := None \<rparr>))"
    "\<not> truthy_id (selectedExtractionId (session_example\<lparr> selectedExtractionId := None \<rparr>))"
    "ext_id extraction_example \<noteq> 0" "items_example (ext_id extraction_example) = Inr [raw_example]"
    by (simp_all add: session_example_def truthy_id_def extraction_example_def items_example_def)
  note one = refreshExtractions_selection [of session_example _ items_example _ _ 3
      "[extraction_example\<lparr> ext_id := 6 \<rparr>]" "Some 5"]
  note two = refreshExtractions_selection [of "session_example\<lparr> selectedExtractionId := None \<rparr>"
      extraction_example items_example "[raw_example]" "[]"]
  have c1: "selectedExtractionId
        (final (refreshExtractions (Inr [extraction_example\<lparr> ext_id := 6 \<rparr>])
           items_example session_example)) = Some 6"
    using one a by (simp add: Let_def)
  have c2: "items (final (refreshExtractions (Inr [extraction_example]) items_example
        (session_example\<lparr> selectedExtractionId := None \<rparr>))) = [normalizeItem raw_example]"
    using two b by (simp add: Let_def)
  have c3: "items (final (selectMeeting (Some 5) (Inr []) items_example session_example)) = []
      \<and> \<not> truthy_id (selectedExtractionId
            (final (selectMeeting (Some 5) (Inr []) items_example session_example)))"
    using one a(4,5) unfolding Let_def by blast
  show ?thesis
    using a b(2) c1 c2 c3 by simp
qed

text \<open>
  C6 as stated fails in its last part. A polling tick for which the backend lists no run
  drops the selection and then stores the items of the run that was selected. From that
  session, switching to a meeting without runs leaves no run selected and the item list
  as it was, not empty.
\<close>

theorem selectMeeting_keeps_items_counterexample:
  "meetingId after_tick_example = Some 4
   \<and> selectedExtractionId after_tick_example = None
   \<and> items after_tick_example = [normalizeItem raw_example]
   \<and> outcome (selectMeeting (Some 5) (Inr []) items_example after_tick_example) = Inr ()
   \<and> extractions (final (selectMeeting (Some 5) (Inr []) items_example after_tick_example)) = []
   \<and> selectedExtractionId (final (selectMeeting (Some 5) (Inr []) items_example after_tick_example))
       = None
   \<and> items (final (selectMeeting (Some 5) (Inr []) items_example after_tick_example))
       = [normalizeItem raw_example]"
proof -
  have p: "polling_example =
      session_example\<lparr> timers := [\<lparr> handle = 1, period = 1500,
                                     callback = \<lparr> cl_meetingId = Some 4,
                                                  cl_selectedExtractionId = Some 3 \<rparr> \<rparr>],
                       nextTimer := 2, pollRef := Some 1 \<rparr>"
    by (simp add: polling_example_def pollEffect_def clearPoll_def activeExtraction_def
        setInterval_def session_example_def extraction_example_def truthy_id_def)
  have t: "after_tick_example =
      polling_example\<lparr> sent := [ListExtractions 4, ListExtractionItems 3],
                       loadingExtractions := False, extractions := [],
                       selectedExtractionId := None,
                       items := [normalizeItem raw_example], loadingItems := False \<rparr>"
    by (simp add: after_tick_example_def pollTick_def p refreshExtractions_from_def
        refreshItems_def items_example_def truthy_id_def run_defs)
      (simp add: session_example_def)
  have s: "meetingId after_tick_example = Some 4"
    by (simp add: t p session_example_def)
  show ?thesis
    using s
    by (simp add: t selectMeeting_def itemsEffect_def refreshExtractions_defs truthy_id_def
        run_defs)
qed

section \<open>Polling\<close>












end
